theory Spec2Isabelle
  imports Main
begin

section \<open>Values of the wrapper (src/Browser/wrapper/index.ts)\<close>

text \<open>
  The wrapper is a gRPC service in front of a browser automation engine. The engine's
  objects are opaque to the wrapper: it only stores them and calls their methods, so a
  handle is modelled by an identifier.
\<close>

datatype Browser = Browser nat
datatype BrowserContext = BrowserContext nat
datatype Page = Page nat
datatype ElementHandle = ElementHandle nat
datatype JSHandle = JSHandle nat

text \<open>The three launchers the wrapper imports from the engine.\<close>

datatype BrowserType = chromium | firefox | webkit

text \<open>
  What \<open>JSHandle.jsonValue()\<close> may resolve to. JavaScript numbers are kept to the
  integers; \<open>truthy\<close> is the conversion that \<open>||\<close> applies to its left operand.
\<close>

datatype jsval = JUndefined | JNull | JBoolean bool | JNumber int | JString string | JObject nat

fun truthy :: "jsval \<Rightarrow> bool" where
  "truthy JUndefined = False"
| "truthy JNull = False"
| "truthy (JBoolean b) = b"
| "truthy (JNumber n) = (n \<noteq> 0)"
| "truthy (JString s) = (s \<noteq> [])"
| "truthy (JObject h) = True"

text \<open>
  An \<open>option\<close> element as the page sees it inside \<open>$$eval\<close>: the three properties
  the wrapper's page function reads.
\<close>

record OptionElement =
  label :: string
  val :: string
  selected :: bool

text \<open>The status codes of the \<open>status\<close> enumeration of the gRPC library.\<close>

datatype status =
    OK | CANCELLED | UNKNOWN | INVALID_ARGUMENT | DEADLINE_EXCEEDED | NOT_FOUND
  | ALREADY_EXISTS | PERMISSION_DENIED | RESOURCE_EXHAUSTED | FAILED_PRECONDITION
  | ABORTED | OUT_OF_RANGE | UNIMPLEMENTED | INTERNAL | UNAVAILABLE | DATA_LOSS
  | UNAUTHENTICATED

text \<open>
  Error objects. \<open>Error m\<close> is a plain \<open>new Error(m)\<close>: it has a message and no
  \<open>code\<close> field. \<open>PwserverError details code\<close> is the wrapper's own class (lines
  16-22), the only error that carries a status code. \<open>TypeError p\<close> is what the runtime
  throws when property \<open>p\<close> is read from \<open>undefined\<close> or \<open>null\<close>.
  \<open>EngineError m\<close> is a rejection coming out of the engine.
\<close>

datatype js_error =
    Error string
  | PwserverError string status
  | TypeError string
  | EngineError string

fun error_code :: "js_error \<Rightarrow> status option" where
  "error_code (PwserverError details c) = Some c"
| "error_code (Error m) = None"
| "error_code (TypeError p) = None"
| "error_code (EngineError m) = None"

text \<open>class BrowserState, lines 43-52.\<close>

record BrowserState =
  browser :: Browser
  "context" :: BrowserContext
  page :: Page

text \<open>The generated message classes the handlers answer with.\<close>

record SelectEntry =
  entry_label :: string
  entry_value :: string
  entry_selected :: bool

datatype Response =
    Response_Empty string
  | Response_String jsval
  | Response_Bool jsval
  | Response_Select "SelectEntry list"


section \<open>The engine\<close>

text \<open>
  The engine (the \<open>playwright\<close> package) is not part of the wrapper. Every method the
  wrapper calls on it is a field of the record below: given the arguments of the call, the
  field says whether the promise rejects (\<open>Inl\<close>) or what it resolves to
  (\<open>Inr\<close>). All theorems hold for every engine.
\<close>

record Engine =
  e_launch :: "BrowserType \<Rightarrow> bool option \<Rightarrow> js_error + Browser"
  e_newContext :: "Browser \<Rightarrow> js_error + BrowserContext"
  e_newPage :: "BrowserContext \<Rightarrow> js_error + Page"
  e_close :: "Browser \<Rightarrow> js_error + unit"
  e_goto :: "Page \<Rightarrow> string \<Rightarrow> js_error + unit"
  e_title :: "Page \<Rightarrow> js_error + string"
  e_url :: "Page \<Rightarrow> string"
  e_textContent :: "Page \<Rightarrow> string \<Rightarrow> js_error + string option"
  e_query :: "Page \<Rightarrow> string \<Rightarrow> js_error + ElementHandle option"
  e_getProperty :: "ElementHandle \<Rightarrow> string \<Rightarrow> js_error + JSHandle"
  e_jsonValue :: "JSHandle \<Rightarrow> js_error + jsval"
  e_queryAll :: "Page \<Rightarrow> string \<Rightarrow> js_error + OptionElement list"
  e_fill :: "Page \<Rightarrow> string \<Rightarrow> string \<Rightarrow> js_error + unit"
  e_click :: "Page \<Rightarrow> string \<Rightarrow> js_error + unit"
  e_check :: "Page \<Rightarrow> string \<Rightarrow> js_error + unit"
  e_uncheck :: "Page \<Rightarrow> string \<Rightarrow> js_error + unit"
  e_selectOption :: "Page \<Rightarrow> string \<Rightarrow> string list \<Rightarrow> js_error + string list"
  e_screenshot :: "Page \<Rightarrow> string \<Rightarrow> js_error + unit"

text \<open>The calls a handler can issue to the engine, with their arguments.\<close>

datatype engine_call =
    BrowserTypeLaunch BrowserType "bool option"
  | BrowserNewContext Browser
  | ContextNewPage BrowserContext
  | BrowserClose Browser
  | PageGoto Page string
  | PageTitle Page
  | PageUrl Page
  | PageTextContent Page string
  | PageQuery Page string
  | ElementGetProperty ElementHandle string
  | HandleJsonValue JSHandle
  | PageEvalAll Page string
  | PageFill Page string string
  | PageClick Page string
  | PageCheck Page string
  | PageUncheck Page string
  | PageSelectOption Page string "string list"
  | PageScreenshot Page string

section \<open>Handlers as state-passing programs\<close>

text \<open>
  What a handler does that can be seen from outside: the calls it issues to the engine and
  the invocations \<open>callback(error, value)\<close> of the response callback (\<open>None\<close> is
  \<open>null\<close>), in the order they happen. Output of \<open>console.log\<close> is not recorded.
\<close>

datatype event =
    Engine engine_call
  | Callback "js_error option" "Response option"

text \<open>
  The state a handler runs in: the field \<open>browserState\<close> of the server object
  (\<open>None\<close> is \<open>undefined\<close>, line 61) and the events so far.
\<close>

record world =
  browserState :: "BrowserState option"
  trace :: "event list"

text \<open>
  An \<open>async\<close> function: from a state it either throws (its promise rejects, \<open>Inl\<close>)
  or returns a value (\<open>Inr\<close>), and leaves a state.
\<close>

type_synonym 'a async = "world \<Rightarrow> (js_error + 'a) \<times> world"

definition return :: "'a \<Rightarrow> 'a async" where
  "return x = (\<lambda>w. (Inr x, w))"

definition throw :: "js_error \<Rightarrow> 'a async" where
  "throw e = (\<lambda>w. (Inl e, w))"

text \<open>Sequencing: an exception of the first part skips the rest.\<close>

definition bind :: "'a async \<Rightarrow> ('a \<Rightarrow> 'b async) \<Rightarrow> 'b async" where
  "bind m f = (\<lambda>w. case m w of (Inl e, w') \<Rightarrow> (Inl e, w') | (Inr x, w') \<Rightarrow> f x w')"

definition emit :: "event \<Rightarrow> unit async" where
  "emit ev = (\<lambda>w. (Inr (), w\<lparr>trace := trace w @ [ev]\<rparr>))"

definition callback :: "js_error option \<Rightarrow> Response option \<Rightarrow> unit async" where
  "callback err v = emit (Callback err v)"

text \<open>\<open>await\<close> of an engine call: the call is issued, then its outcome is taken.\<close>

definition await :: "engine_call \<Rightarrow> js_error + 'a \<Rightarrow> 'a async" where
  "await c outcome =
     bind (emit (Engine c)) (\<lambda>_. case outcome of Inl e \<Rightarrow> throw e | Inr x \<Rightarrow> return x)"

definition get_browserState :: "BrowserState option async" where
  "get_browserState = (\<lambda>w. (Inr (browserState w), w))"

definition set_browserState :: "BrowserState option \<Rightarrow> unit async" where
  "set_browserState v = (\<lambda>w. (Inr (), w\<lparr>browserState := v\<rparr>))"

text \<open>
  Reading property \<open>p\<close> of a value that may be \<open>undefined\<close> or \<open>null\<close>:
  the runtime throws a \<open>TypeError\<close> when it is.
\<close>

definition member :: "'a option \<Rightarrow> string \<Rightarrow> ('a \<Rightarrow> 'b) \<Rightarrow> 'b async" where
  "member obj p sel = (case obj of None \<Rightarrow> throw (TypeError p) | Some x \<Rightarrow> return (sel x))"

text \<open>\<open>this.browserState.p\<close>\<close>

definition this_browserState :: "string \<Rightarrow> (BrowserState \<Rightarrow> 'b) \<Rightarrow> 'b async" where
  "this_browserState p sel = bind get_browserState (\<lambda>st. member st p sel)"

text \<open>
  function exists, lines 10-14: if \<open>obj\<close> is not trueish, call the callback with a new
  error containing \<open>message\<close>. There is no \<open>throw\<close> and no other statement: the
  function returns to its caller in both cases.
\<close>

definition exists :: "'a option \<Rightarrow> string \<Rightarrow> unit async" where
  "exists obj message =
     (if obj = None then callback (Some (PwserverError message FAILED_PRECONDITION)) None
      else return ())"

text \<open>function emptyWithLog, lines 54-58.\<close>

definition emptyWithLog :: "string \<Rightarrow> Response" where
  "emptyWithLog text = Response_Empty text"


subsection \<open>The engine's methods, as the handlers call them\<close>

definition browserType_launch :: "Engine \<Rightarrow> BrowserType \<Rightarrow> bool option \<Rightarrow> Browser async" where
  "browserType_launch eng bt headless = await (BrowserTypeLaunch bt headless) (e_launch eng bt headless)"

definition browser_newContext :: "Engine \<Rightarrow> Browser \<Rightarrow> BrowserContext async" where
  "browser_newContext eng b = await (BrowserNewContext b) (e_newContext eng b)"

definition context_newPage :: "Engine \<Rightarrow> BrowserContext \<Rightarrow> Page async" where
  "context_newPage eng c = await (ContextNewPage c) (e_newPage eng c)"

definition browser_close :: "Engine \<Rightarrow> Browser \<Rightarrow> unit async" where
  "browser_close eng b = await (BrowserClose b) (e_close eng b)"

definition page_goto :: "Engine \<Rightarrow> Page \<Rightarrow> string \<Rightarrow> unit async" where
  "page_goto eng p url = await (PageGoto p url) (e_goto eng p url)"

definition page_title :: "Engine \<Rightarrow> Page \<Rightarrow> string async" where
  "page_title eng p = await (PageTitle p) (e_title eng p)"

text \<open>\<open>page.url()\<close> is synchronous: it returns a string.\<close>

definition page_url :: "Engine \<Rightarrow> Page \<Rightarrow> string async" where
  "page_url eng p = await (PageUrl p) (Inr (e_url eng p))"

definition page_textContent :: "Engine \<Rightarrow> Page \<Rightarrow> string \<Rightarrow> string option async" where
  "page_textContent eng p selector = await (PageTextContent p selector) (e_textContent eng p selector)"

text \<open>\<open>page.$(selector)\<close>: the first matching element, or \<open>null\<close>.\<close>

definition page_query :: "Engine \<Rightarrow> Page \<Rightarrow> string \<Rightarrow> ElementHandle option async" where
  "page_query eng p selector = await (PageQuery p selector) (e_query eng p selector)"

definition element_getProperty :: "Engine \<Rightarrow> ElementHandle \<Rightarrow> string \<Rightarrow> JSHandle async" where
  "element_getProperty eng el property = await (ElementGetProperty el property) (e_getProperty eng el property)"

definition result_jsonValue :: "Engine \<Rightarrow> JSHandle \<Rightarrow> jsval async" where
  "result_jsonValue eng h = await (HandleJsonValue h) (e_jsonValue eng h)"

text \<open>
  The comparison \<open>"" != b\<close> for a boolean \<open>b\<close>: both sides are converted to numbers,
  the empty string to 0.
\<close>

definition ne_empty_string :: "bool \<Rightarrow> bool" where
  "ne_empty_string b = ((0::int) \<noteq> (if b then 1 else 0))"

text \<open>The page function of lines 173-176.\<close>

definition option_row :: "OptionElement \<Rightarrow> string \<times> string \<times> bool" where
  "option_row element = (label element, val element, ne_empty_string (selected element))"

text \<open>
  \<open>page.$$eval(selector, f)\<close>: the engine finds all the elements matching the selector
  and resolves to the array of the values of the page function on them.
\<close>

definition page_evalAll :: "Engine \<Rightarrow> Page \<Rightarrow> string \<Rightarrow> (string \<times> string \<times> bool) list async" where
  "page_evalAll eng p selector =
     await (PageEvalAll p selector)
       (case e_queryAll eng p selector of Inl e \<Rightarrow> Inl e | Inr elements \<Rightarrow> Inr (map option_row elements))"

definition page_fill :: "Engine \<Rightarrow> Page \<Rightarrow> string \<Rightarrow> string \<Rightarrow> unit async" where
  "page_fill eng p selector inputText = await (PageFill p selector inputText) (e_fill eng p selector inputText)"

definition page_click :: "Engine \<Rightarrow> Page \<Rightarrow> string \<Rightarrow> unit async" where
  "page_click eng p selector = await (PageClick p selector) (e_click eng p selector)"

definition page_check :: "Engine \<Rightarrow> Page \<Rightarrow> string \<Rightarrow> unit async" where
  "page_check eng p selector = await (PageCheck p selector) (e_check eng p selector)"

definition page_uncheck :: "Engine \<Rightarrow> Page \<Rightarrow> string \<Rightarrow> unit async" where
  "page_uncheck eng p selector = await (PageUncheck p selector) (e_uncheck eng p selector)"

definition page_selectOption :: "Engine \<Rightarrow> Page \<Rightarrow> string \<Rightarrow> string list \<Rightarrow> string list async" where
  "page_selectOption eng p selector matcher =
     await (PageSelectOption p selector matcher) (e_selectOption eng p selector matcher)"

definition page_screenshot :: "Engine \<Rightarrow> Page \<Rightarrow> string \<Rightarrow> unit async" where
  "page_screenshot eng p path = await (PageScreenshot p path) (e_screenshot eng p path)"

text \<open>
  An array of strings inside a template literal is converted by \<open>Array.prototype.toString\<close>:
  the elements joined by commas.
\<close>

fun array_toString :: "string list \<Rightarrow> string" where
  "array_toString [] = []"
| "array_toString [x] = x"
| "array_toString (x # y # ys) = x @ '','' @ array_toString (y # ys)"

subsection \<open>createBrowserState, lines 25-40\<close>

definition createBrowserState :: "Engine \<Rightarrow> string \<Rightarrow> BrowserState async" where
  "createBrowserState eng browserType =
     bind (if browserType = ''firefox'' then browserType_launch eng firefox (Some True)
           else if browserType = ''chrome'' then browserType_launch eng chromium (Some True)
           else if browserType = ''webkit'' then browserType_launch eng webkit None
           else throw (Error ''unsupported browser'')) (\<lambda>b.
     bind (browser_newContext eng b) (\<lambda>c.
     bind (context_newPage eng c) (\<lambda>p.
     return \<lparr>browser = b, context = c, page = p\<rparr>)))"

subsection \<open>class PlaywrightServer, lines 60-255\<close>

text \<open>
  openUrlInPage, lines 64-69. The caller passes \<open>this.browserState?.page\<close>, which is
  \<open>undefined\<close> when there is no state.
\<close>

definition openUrlInPage :: "Engine \<Rightarrow> string \<Rightarrow> Page option \<Rightarrow> string async" where
  "openUrlInPage eng url pg =
     bind (member pg ''goto'' id) (\<lambda>p.
     bind (page_goto eng p url) (\<lambda>_.
     return (''Succesfully opened URL '' @ url)))"

definition closeBrowser :: "Engine \<Rightarrow> unit async" where
  "closeBrowser eng =
     bind get_browserState (\<lambda>st.
     bind (exists st ''Tried to close browser but none was open'') (\<lambda>_.
     bind (this_browserState ''browser'' browser) (\<lambda>b.
     bind (browser_close eng b) (\<lambda>_.
     bind (set_browserState None) (\<lambda>_.
     callback None (Some (emptyWithLog ''Closed browser'')))))))"

definition openBrowser :: "Engine \<Rightarrow> string \<Rightarrow> string \<Rightarrow> unit async" where
  "openBrowser eng browserType url =
     bind (createBrowserState eng browserType) (\<lambda>created.
     bind (set_browserState (Some created)) (\<lambda>_.
     bind (if url \<noteq> [] then
             bind get_browserState (\<lambda>st.
             bind (openUrlInPage eng url (map_option page st)) (\<lambda>returnValue.
             return (Response_Empty returnValue)))
           else return (Response_Empty [])) (\<lambda>response.
     callback None (Some response))))"

definition goTo :: "Engine \<Rightarrow> string \<Rightarrow> unit async" where
  "goTo eng url =
     bind get_browserState (\<lambda>st.
     bind (exists st ''Tried to open URl but had no browser open'') (\<lambda>_.
     bind (this_browserState ''page'' page) (\<lambda>p.
     bind (page_goto eng p url) (\<lambda>_.
     callback None (Some (emptyWithLog ''Succesfully opened URL''))))))"

definition getTitle :: "Engine \<Rightarrow> unit async" where
  "getTitle eng =
     bind get_browserState (\<lambda>st.
     bind (exists st ''Tried to get title, no open browser'') (\<lambda>_.
     bind (this_browserState ''page'' page) (\<lambda>p.
     bind (page_title eng p) (\<lambda>title.
     callback None (Some (Response_String (JString title)))))))"

definition getUrl :: "Engine \<Rightarrow> unit async" where
  "getUrl eng =
     bind get_browserState (\<lambda>st.
     bind (exists st ''Tried to get page URL, no open browser'') (\<lambda>_.
     bind (this_browserState ''page'' page) (\<lambda>p.
     bind (page_url eng p) (\<lambda>url.
     callback None (Some (Response_String (JString url)))))))"

text \<open>\<open>content?.toString() || ""\<close>: the empty string for \<open>null\<close> and for the empty string.\<close>

definition getTextContent :: "Engine \<Rightarrow> string \<Rightarrow> unit async" where
  "getTextContent eng selector =
     bind get_browserState (\<lambda>st.
     bind (exists st ''Tried to find text on page, no open browser'') (\<lambda>_.
     bind (this_browserState ''page'' page) (\<lambda>p.
     bind (page_textContent eng p selector) (\<lambda>content.
     callback None (Some (Response_String (JString
       (case content of None \<Rightarrow> [] | Some s \<Rightarrow> if s \<noteq> [] then s else []))))))))"


text \<open>
  getDomProperty, lines 134-149. The second \<open>exists\<close> checks the element; the next
  statement reads \<open>element.getProperty\<close>.
\<close>

definition getDomProperty :: "Engine \<Rightarrow> string \<Rightarrow> string \<Rightarrow> unit async" where
  "getDomProperty eng selector property =
     bind get_browserState (\<lambda>st.
     bind (exists st ''Tried to get DOM property, no open browser'') (\<lambda>_.
     bind (this_browserState ''page'' page) (\<lambda>p.
     bind (page_query eng p selector) (\<lambda>element.
     bind (exists element (''Couldn't find element: '' @ selector)) (\<lambda>_.
     bind (member element ''getProperty'' id) (\<lambda>el.
     bind (element_getProperty eng el property) (\<lambda>result.
     bind (result_jsonValue eng result) (\<lambda>content.
     callback None (Some (Response_String content))))))))))"

text \<open>getBoolProperty, lines 151-166; the body is \<open>content || false\<close>.\<close>

definition getBoolProperty :: "Engine \<Rightarrow> string \<Rightarrow> string \<Rightarrow> unit async" where
  "getBoolProperty eng selector property =
     bind get_browserState (\<lambda>st.
     bind (exists st ''Tried to get DOM property, no open browser'') (\<lambda>_.
     bind (this_browserState ''page'' page) (\<lambda>p.
     bind (page_query eng p selector) (\<lambda>element.
     bind (exists element (''Couldn't find element: '' @ selector)) (\<lambda>_.
     bind (member element ''getProperty'' id) (\<lambda>el.
     bind (element_getProperty eng el property) (\<lambda>result.
     bind (result_jsonValue eng result) (\<lambda>content.
     callback None (Some (Response_Bool (if truthy content then content else JBoolean False)))))))))))"

text \<open>
  The \<open>forEach\<close> of lines 179-186: one \<open>addEntry\<close> per element of \<open>content\<close>, from
  the first to the last; \<open>addEntry\<close> appends to the entries of the response.
\<close>

fun forEach_addEntry :: "(string \<times> string \<times> bool) list \<Rightarrow> SelectEntry list \<Rightarrow> SelectEntry list" where
  "forEach_addEntry [] entries = entries"
| "forEach_addEntry ((l, v, s) # content) entries =
     forEach_addEntry content
       (entries @ [\<lparr>entry_label = l, entry_value = v, entry_selected = s\<rparr>])"

definition getSelectContent :: "Engine \<Rightarrow> string \<Rightarrow> unit async" where
  "getSelectContent eng selector =
     bind get_browserState (\<lambda>st.
     bind (exists st ''Tried to get Select element contents, no open browser'') (\<lambda>_.
     bind (this_browserState ''page'' page) (\<lambda>p.
     bind (page_evalAll eng p (selector @ '' option'')) (\<lambda>content.
     callback None (Some (Response_Select (forEach_addEntry content [])))))))"

definition inputText :: "Engine \<Rightarrow> string \<Rightarrow> string \<Rightarrow> unit async" where
  "inputText eng selector input =
     bind get_browserState (\<lambda>st.
     bind (exists st ''Tried to input text, no open browser'') (\<lambda>_.
     bind (this_browserState ''page'' page) (\<lambda>p.
     bind (page_fill eng p selector input) (\<lambda>_.
     callback None (Some (emptyWithLog (''Input text: '' @ input)))))))"

definition clickButton :: "Engine \<Rightarrow> string \<Rightarrow> unit async" where
  "clickButton eng selector =
     bind get_browserState (\<lambda>st.
     bind (exists st ''Tried to click button, no open browser'') (\<lambda>_.
     bind (this_browserState ''page'' page) (\<lambda>p.
     bind (page_click eng p selector) (\<lambda>_.
     callback None (Some (emptyWithLog (''Clicked button: '' @ selector)))))))"

definition checkCheckbox :: "Engine \<Rightarrow> string \<Rightarrow> unit async" where
  "checkCheckbox eng selector =
     bind get_browserState (\<lambda>st.
     bind (exists st ''Tried to check checkbox, no open browser'') (\<lambda>_.
     bind (this_browserState ''page'' page) (\<lambda>p.
     bind (page_check eng p selector) (\<lambda>_.
     callback None (Some (emptyWithLog (''Checked checkbox: '' @ selector)))))))"

definition uncheckCheckbox :: "Engine \<Rightarrow> string \<Rightarrow> unit async" where
  "uncheckCheckbox eng selector =
     bind get_browserState (\<lambda>st.
     bind (exists st ''Tried to uncheck checkbox, no open browser'') (\<lambda>_.
     bind (this_browserState ''page'' page) (\<lambda>p.
     bind (page_uncheck eng p selector) (\<lambda>_.
     callback None (Some (emptyWithLog (''Unhecked checkbox: '' @ selector)))))))"

text \<open>
  selectOption, lines 224-237. The \<open>if\<close> of line 230 has no \<open>return\<close> and no
  \<open>else\<close>: lines 235-236 follow it in both cases.
\<close>

definition selectOption :: "Engine \<Rightarrow> string \<Rightarrow> string list \<Rightarrow> unit async" where
  "selectOption eng selector matcher =
     bind get_browserState (\<lambda>st.
     bind (exists st ''Tried to select ``select`` element option, no open browser'') (\<lambda>_.
     bind (this_browserState ''page'' page) (\<lambda>p.
     bind (page_selectOption eng p selector matcher) (\<lambda>result.
     bind (if length result = 0
           then callback (Some (PwserverError (''No options matched '' @ array_toString matcher) NOT_FOUND)) None
           else return ()) (\<lambda>_.
     callback None (Some (emptyWithLog
       (''Selected options '' @ array_toString result @ '' in element '' @ selector))))))))"

definition health :: "unit async" where
  "health = callback None (Some (Response_String (JString ''OK'')))"

definition screenshot :: "Engine \<Rightarrow> string \<Rightarrow> unit async" where
  "screenshot eng path0 =
     bind get_browserState (\<lambda>st.
     bind (exists st ''Tried to take screenshot, no open browser'') (\<lambda>_.
     bind (this_browserState ''page'' page) (\<lambda>p.
     bind (page_screenshot eng p (path0 @ ''.png'')) (\<lambda>_.
     callback None (Some (emptyWithLog ''Succesfully took screenshot''))))))"

subsection \<open>The service\<close>

text \<open>
  A call of the service: the method and the fields of its request message. Line 258
  registers one handler per method.
\<close>

datatype request =
    OpenBrowser string string
  | CloseBrowser
  | GoTo string
  | GetTitle
  | GetUrl
  | GetTextContent string
  | GetDomProperty string string
  | GetBoolProperty string string
  | GetSelectContent string
  | InputText string string
  | ClickButton string
  | CheckCheckbox string
  | UncheckCheckbox string
  | SelectOption string "string list"
  | Health
  | Screenshot string

fun handler :: "Engine \<Rightarrow> request \<Rightarrow> unit async" where
  "handler eng (OpenBrowser browserType url) = openBrowser eng browserType url"
| "handler eng CloseBrowser = closeBrowser eng"
| "handler eng (GoTo url) = goTo eng url"
| "handler eng GetTitle = getTitle eng"
| "handler eng GetUrl = getUrl eng"
| "handler eng (GetTextContent selector) = getTextContent eng selector"
| "handler eng (GetDomProperty selector property) = getDomProperty eng selector property"
| "handler eng (GetBoolProperty selector property) = getBoolProperty eng selector property"
| "handler eng (GetSelectContent selector) = getSelectContent eng selector"
| "handler eng (InputText selector input) = inputText eng selector input"
| "handler eng (ClickButton selector) = clickButton eng selector"
| "handler eng (CheckCheckbox selector) = checkCheckbox eng selector"
| "handler eng (UncheckCheckbox selector) = uncheckCheckbox eng selector"
| "handler eng (SelectOption selector matcher) = selectOption eng selector matcher"
| "handler eng Health = health"
| "handler eng (Screenshot path0) = screenshot eng path0"

text \<open>
  Running a handler on a server whose field \<open>browserState\<close> is \<open>st\<close>: the outcome of
  its promise, the field afterwards, and what it did.
\<close>

definition run :: "'a async \<Rightarrow> BrowserState option \<Rightarrow> (js_error + 'a) \<times> world" where
  "run m st = m \<lparr>browserState = st, trace = []\<rparr>"

definition outcome :: "(js_error + 'a) \<times> world \<Rightarrow> js_error + 'a" where
  "outcome r = fst r"

definition state_after :: "(js_error + 'a) \<times> world \<Rightarrow> BrowserState option" where
  "state_after r = browserState (snd r)"

definition events :: "(js_error + 'a) \<times> world \<Rightarrow> event list" where
  "events r = trace (snd r)"

fun engine_calls :: "event list \<Rightarrow> engine_call list" where
  "engine_calls [] = []"
| "engine_calls (Engine c # evs) = c # engine_calls evs"
| "engine_calls (Callback err v # evs) = engine_calls evs"

fun callbacks :: "event list \<Rightarrow> (js_error option \<times> Response option) list" where
  "callbacks [] = []"
| "callbacks (Engine c # evs) = callbacks evs"
| "callbacks (Callback err v # evs) = (err, v) # callbacks evs"


section \<open>Vocabulary of the statements\<close>

text \<open>
  The message each handler passes to its first call of \<open>exists\<close> (lines 72, 99, 106, 115,
  125, 135, 152, 169, 191, 201, 210, 217, 225 and 246). \<open>openBrowser\<close> and \<open>health\<close>
  do not call \<open>exists\<close>.
\<close>

fun no_session_message :: "request \<Rightarrow> string" where
  "no_session_message CloseBrowser = ''Tried to close browser but none was open''"
| "no_session_message (GoTo url) = ''Tried to open URl but had no browser open''"
| "no_session_message GetTitle = ''Tried to get title, no open browser''"
| "no_session_message GetUrl = ''Tried to get page URL, no open browser''"
| "no_session_message (GetTextContent selector) = ''Tried to find text on page, no open browser''"
| "no_session_message (GetDomProperty selector property) = ''Tried to get DOM property, no open browser''"
| "no_session_message (GetBoolProperty selector property) = ''Tried to get DOM property, no open browser''"
| "no_session_message (GetSelectContent selector) = ''Tried to get Select element contents, no open browser''"
| "no_session_message (InputText selector input) = ''Tried to input text, no open browser''"
| "no_session_message (ClickButton selector) = ''Tried to click button, no open browser''"
| "no_session_message (CheckCheckbox selector) = ''Tried to check checkbox, no open browser''"
| "no_session_message (UncheckCheckbox selector) = ''Tried to uncheck checkbox, no open browser''"
| "no_session_message (SelectOption selector matcher) =
     ''Tried to select ``select`` element option, no open browser''"
| "no_session_message (Screenshot path0) = ''Tried to take screenshot, no open browser''"
| "no_session_message (OpenBrowser browserType url) = []"
| "no_session_message Health = []"

text \<open>The property of \<open>this.browserState\<close> a handler reads first after its check.\<close>

fun first_member :: "request \<Rightarrow> string" where
  "first_member CloseBrowser = ''browser''"
| "first_member req = ''page''"

fun needs_session :: "request \<Rightarrow> bool" where
  "needs_session (OpenBrowser browserType url) = False"
| "needs_session Health = False"
| "needs_session req = True"

subsection \<open>Concrete engines and a concrete session\<close>

definition example_state :: BrowserState where
  "example_state = \<lparr>browser = Browser 0, context = BrowserContext 0, page = Page 0\<rparr>"

text \<open>
  An engine on which every call succeeds. Its page has one \<open>select\<close> element with the
  options A (selected) and B; no selector finds an element.
\<close>

definition example_engine :: Engine where
  "example_engine =
     \<lparr>e_launch = (\<lambda>bt headless. Inr (Browser 1)),
      e_newContext = (\<lambda>b. Inr (BrowserContext 1)),
      e_newPage = (\<lambda>c. Inr (Page 1)),
      e_close = (\<lambda>b. Inr ()),
      e_goto = (\<lambda>p url. Inr ()),
      e_title = (\<lambda>p. Inr ''Example Domain''),
      e_url = (\<lambda>p. ''about:blank''),
      e_textContent = (\<lambda>p selector. Inr None),
      e_query = (\<lambda>p selector. Inr None),
      e_getProperty = (\<lambda>el property. Inr (JSHandle 1)),
      e_jsonValue = (\<lambda>h. Inr (JBoolean True)),
      e_queryAll = (\<lambda>p selector. Inr
        [\<lparr>label = ''A'', val = ''a'', selected = True\<rparr>,
         \<lparr>label = ''B'', val = ''b'', selected = False\<rparr>]),
      e_fill = (\<lambda>p selector input. Inr ()),
      e_click = (\<lambda>p selector. Inr ()),
      e_check = (\<lambda>p selector. Inr ()),
      e_uncheck = (\<lambda>p selector. Inr ()),
      e_selectOption = (\<lambda>p selector matcher. Inr (filter (\<lambda>m. m \<in> {''a'', ''b''}) matcher)),
      e_screenshot = (\<lambda>p path. Inr ())\<rparr>"

text \<open>The same engine with a browser that cannot be closed, and with a page that cannot navigate.\<close>

definition close_fails :: Engine where
  "close_fails = example_engine\<lparr>e_close := (\<lambda>b. Inl (EngineError ''Browser closed''))\<rparr>"

definition goto_fails :: Engine where
  "goto_fails = example_engine\<lparr>e_goto := (\<lambda>p url. Inl (EngineError ''net::ERR_NAME_NOT_RESOLVED''))\<rparr>"

section \<open>Properties\<close>

lemmas async_defs =
  return_def throw_def bind_def emit_def callback_def await_def get_browserState_def
  set_browserState_def member_def this_browserState_def exists_def emptyWithLog_def

lemmas run_defs = run_def outcome_def state_after_def events_def

lemmas handler_defs =
  closeBrowser_def openBrowser_def goTo_def getTitle_def getUrl_def getTextContent_def
  getDomProperty_def getBoolProperty_def getSelectContent_def inputText_def clickButton_def
  checkCheckbox_def uncheckCheckbox_def selectOption_def health_def screenshot_def

subsection \<open>Handlers without a session\<close>

text \<open>
  With no state, each handler that checks for one calls the callback once, with the error
  of its check, issues nothing else and ends with the \<open>TypeError\<close> of its first read of
  \<open>this.browserState\<close>.
\<close>

lemma run_no_session:
  "needs_session req \<Longrightarrow>
   run (handler eng req) None =
     (Inl (TypeError (first_member req)),
      \<lparr>browserState = None,
       trace = [Callback (Some (PwserverError (no_session_message req) FAILED_PRECONDITION)) None]\<rparr>)"
  by (cases req) (simp_all add: handler_defs async_defs run_def)

lemma needs_session_iff:
  "needs_session req = (req \<noteq> Health \<and> (\<forall>browserType url. req \<noteq> OpenBrowser browserType url))"
  by (cases req) simp_all

text \<open>
  C1. Every operation other than OpenBrowser and Health, invoked while no session is open,
  answers through the callback with a FAILED_PRECONDITION error carrying the message of that
  operation, and issues no call to the engine. (GetBoolProperty passes the same text as
  GetDomProperty.)
\<close>

theorem no_session_failed_precondition:
  assumes "req \<noteq> Health" and "\<And>browserType url. req \<noteq> OpenBrowser browserType url"
  shows "callbacks (events (run (handler eng req) None)) =
           [(Some (PwserverError (no_session_message req) FAILED_PRECONDITION), None)]
         \<and> engine_calls (events (run (handler eng req) None)) = []"
proof -
  from assms have "needs_session req" by (simp add: needs_session_iff)
  then show ?thesis by (simp add: run_no_session events_def)
qed

text \<open>C1 at ClickButton, the example of the specification.\<close>

theorem no_session_failed_precondition_witness:
  "callbacks (events (run (handler example_engine (ClickButton ''#submit'')) None)) =
     [(Some (PwserverError ''Tried to click button, no open browser'' FAILED_PRECONDITION), None)]
   \<and> engine_calls (events (run (handler example_engine (ClickButton ''#submit'')) None)) = []"
  using no_session_failed_precondition [of "ClickButton ''#submit''" example_engine] by simp

text \<open>
  C10. \<open>exists\<close> on an absent object sends the FAILED_PRECONDITION error through the
  callback and returns normally. So every handler with a check, invoked with no session,
  goes on after the error response: the response is the only event, and the handler ends
  with the \<open>TypeError\<close> of reading a property of the absent \<open>this.browserState\<close>
  (\<open>browser\<close> in CloseBrowser, \<open>page\<close> in the others).
\<close>

theorem no_session_handler_reads_absent_state:
  assumes "req \<noteq> Health" and "\<And>browserType url. req \<noteq> OpenBrowser browserType url"
  shows "exists (None :: BrowserState option) (no_session_message req)
           \<lparr>browserState = None, trace = []\<rparr> =
           (Inr (), \<lparr>browserState = None,
                     trace = [Callback (Some (PwserverError (no_session_message req) FAILED_PRECONDITION)) None]\<rparr>)
         \<and> events (run (handler eng req) None) =
             [Callback (Some (PwserverError (no_session_message req) FAILED_PRECONDITION)) None]
         \<and> outcome (run (handler eng req) None) =
             Inl (TypeError (if req = CloseBrowser then ''browser'' else ''page''))"
proof -
  from assms have n: "needs_session req" by (simp add: needs_session_iff)
  have "first_member req = (if req = CloseBrowser then ''browser'' else ''page'')"
    by (cases req) simp_all
  with n show ?thesis
    by (simp add: run_no_session events_def outcome_def exists_def callback_def emit_def)
qed

text \<open>C10 at CloseBrowser, which reads \<open>this.browserState.browser\<close> after the check.\<close>

theorem no_session_handler_reads_absent_state_witness:
  "events (run (handler example_engine CloseBrowser) None) =
     [Callback (Some (PwserverError ''Tried to close browser but none was open'' FAILED_PRECONDITION)) None]
   \<and> outcome (run (handler example_engine CloseBrowser) None) = Inl (TypeError ''browser'')"
  using no_session_handler_reads_absent_state [of CloseBrowser example_engine] by simp

subsection \<open>Opening a browser\<close>

text \<open>
  C2 (as stated). OpenBrowser with the unsupported kind \<open>opera\<close>: the call fails with the
  plain \<open>Error\<close> thrown at line 35, which has no status code, so its code is not
  INVALID_ARGUMENT; and nothing is sent through the callback.
\<close>

theorem openBrowser_unsupported_not_invalid_argument:
  "outcome (run (openBrowser example_engine ''opera'' []) None) = Inl (Error ''unsupported browser'')
   \<and> error_code (Error ''unsupported browser'') \<noteq> Some INVALID_ARGUMENT
   \<and> callbacks (events (run (openBrowser example_engine ''opera'' []) None)) = []"
  by (simp add: openBrowser_def createBrowserState_def async_defs run_defs)

text \<open>
  C2 (amended). For every OpenBrowser call whose kind is not one of chrome, firefox and
  webkit, the call fails with the plain error \<open>unsupported browser\<close>, which carries no
  status code; no call is issued to the engine, nothing is sent through the callback, and
  the stored session is left as it was.
\<close>

theorem openBrowser_unsupported_kind:
  assumes "browserType \<notin> {''chrome'', ''firefox'', ''webkit''}"
  shows "outcome (run (openBrowser eng browserType url) st) = Inl (Error ''unsupported browser'')
         \<and> error_code (Error ''unsupported browser'') = None
         \<and> events (run (openBrowser eng browserType url) st) = []
         \<and> state_after (run (openBrowser eng browserType url) st) = st"
  using assms by (simp add: openBrowser_def createBrowserState_def async_defs run_defs)

text \<open>C2 (amended) at the kind \<open>opera\<close>, with a session open.\<close>

theorem openBrowser_unsupported_kind_witness:
  "''opera'' \<notin> {''chrome'', ''firefox'', ''webkit''}
   \<and> outcome (run (openBrowser example_engine ''opera'' ''https://example.com'') (Some example_state)) =
       Inl (Error ''unsupported browser'')
   \<and> events (run (openBrowser example_engine ''opera'' ''https://example.com'') (Some example_state)) = []
   \<and> state_after (run (openBrowser example_engine ''opera'' ''https://example.com'') (Some example_state)) =
       Some example_state"
  using openBrowser_unsupported_kind
    [of "''opera''" example_engine "''https://example.com''" "Some example_state"]
  by simp

text \<open>No event of OpenBrowser is a call of \<open>browser.close()\<close>, whatever the engine answers.\<close>

lemma openBrowser_no_close:
  "BrowserClose b \<notin> set (engine_calls (events (run (openBrowser eng browserType url) st)))"
  by (simp add: openBrowser_def createBrowserState_def openUrlInPage_def browserType_launch_def
        browser_newContext_def context_newPage_def page_goto_def async_defs run_defs
        split: sum.splits)

text \<open>
  C4. OpenBrowser with a supported kind and a non-empty URL: when the browser, the context
  and the page are created and the navigation then fails, the new session is stored all the
  same; the navigation's error is the outcome of the handler.
\<close>

theorem openBrowser_navigation_failure_keeps_session:
  assumes "browserType \<in> {''chrome'', ''firefox'', ''webkit''}"
    and "url \<noteq> []"
    and "outcome (run (createBrowserState eng browserType) st) = Inr created"
    and "e_goto eng (page created) url = Inl err"
  shows "state_after (run (openBrowser eng browserType url) st) = Some created
         \<and> outcome (run (openBrowser eng browserType url) st) = Inl err"
proof -
  obtain w' where c:
    "createBrowserState eng browserType \<lparr>browserState = st, trace = []\<rparr> = (Inr created, w')"
    using assms(3)
    by (cases "createBrowserState eng browserType \<lparr>browserState = st, trace = []\<rparr>")
       (simp add: run_defs)
  show ?thesis
    using c assms(2,4)
    by (simp add: openBrowser_def openUrlInPage_def page_goto_def async_defs run_defs)
qed

text \<open>C4 on the engine whose page cannot navigate, starting with no session.\<close>

theorem openBrowser_navigation_failure_keeps_session_witness:
  "''firefox'' \<in> {''chrome'', ''firefox'', ''webkit''}
   \<and> ''https://example.com'' \<noteq> []
   \<and> outcome (run (createBrowserState goto_fails ''firefox'') None) =
       Inr \<lparr>browser = Browser 1, context = BrowserContext 1, page = Page 1\<rparr>
   \<and> e_goto goto_fails (Page 1) ''https://example.com'' = Inl (EngineError ''net::ERR_NAME_NOT_RESOLVED'')
   \<and> state_after (run (openBrowser goto_fails ''firefox'' ''https://example.com'') None) =
       Some \<lparr>browser = Browser 1, context = BrowserContext 1, page = Page 1\<rparr>
   \<and> outcome (run (openBrowser goto_fails ''firefox'' ''https://example.com'') None) =
       Inl (EngineError ''net::ERR_NAME_NOT_RESOLVED'')"
proof -
  have k: "''firefox'' \<in> {''chrome'', ''firefox'', ''webkit''}" by simp
  have u: "''https://example.com'' \<noteq> []" by simp
  have c: "outcome (run (createBrowserState goto_fails ''firefox'') None) =
             Inr \<lparr>browser = Browser 1, context = BrowserContext 1, page = Page 1\<rparr>"
    by (simp add: createBrowserState_def browserType_launch_def browser_newContext_def
          context_newPage_def async_defs run_defs goto_fails_def example_engine_def)
  have g: "e_goto goto_fails (page \<lparr>browser = Browser 1, context = BrowserContext 1, page = Page 1\<rparr>)
             ''https://example.com'' = Inl (EngineError ''net::ERR_NAME_NOT_RESOLVED'')"
    by (simp add: goto_fails_def)
  from openBrowser_navigation_failure_keeps_session [OF k u c g] k u c g
  show ?thesis by simp
qed

text \<open>
  C6. OpenBrowser with a supported kind while a session is open: the session the handler
  creates replaces the stored one, and the handler never calls \<open>close\<close> on the browser
  of the previous session.
\<close>

theorem openBrowser_replaces_session_without_close:
  assumes "browserType \<in> {''chrome'', ''firefox'', ''webkit''}"
    and "outcome (run (createBrowserState eng browserType) (Some old)) = Inr created"
  shows "state_after (run (openBrowser eng browserType url) (Some old)) = Some created
         \<and> BrowserClose (browser old) \<notin>
             set (engine_calls (events (run (openBrowser eng browserType url) (Some old))))"
proof -
  obtain w' where c:
    "createBrowserState eng browserType \<lparr>browserState = Some old, trace = []\<rparr> = (Inr created, w')"
    using assms(2)
    by (cases "createBrowserState eng browserType \<lparr>browserState = Some old, trace = []\<rparr>")
       (simp add: run_defs)
  have "state_after (run (openBrowser eng browserType url) (Some old)) = Some created"
    using c
    by (cases "e_goto eng (page created) url")
       (simp_all add: openBrowser_def openUrlInPage_def page_goto_def async_defs run_defs)
  then show ?thesis by (simp add: openBrowser_no_close)
qed

text \<open>C6 on the example engine: the events are the three creation calls and the response.\<close>

theorem openBrowser_replaces_session_without_close_witness:
  "''chrome'' \<in> {''chrome'', ''firefox'', ''webkit''}
   \<and> outcome (run (createBrowserState example_engine ''chrome'') (Some example_state)) =
       Inr \<lparr>browser = Browser 1, context = BrowserContext 1, page = Page 1\<rparr>
   \<and> state_after (run (openBrowser example_engine ''chrome'' []) (Some example_state)) =
       Some \<lparr>browser = Browser 1, context = BrowserContext 1, page = Page 1\<rparr>
   \<and> BrowserClose (Browser 0) \<notin>
       set (engine_calls (events (run (openBrowser example_engine ''chrome'' []) (Some example_state))))"
proof -
  have k: "''chrome'' \<in> {''chrome'', ''firefox'', ''webkit''}" by simp
  have c: "outcome (run (createBrowserState example_engine ''chrome'') (Some example_state)) =
             Inr \<lparr>browser = Browser 1, context = BrowserContext 1, page = Page 1\<rparr>"
    by (simp add: createBrowserState_def browserType_launch_def browser_newContext_def
          context_newPage_def async_defs run_defs example_engine_def)
  have b: "browser example_state = Browser 0" by (simp add: example_state_def)
  from openBrowser_replaces_session_without_close [OF k c, of "[]"] k c b
  show ?thesis by simp
qed

subsection \<open>Closing the browser\<close>

text \<open>
  C3 (as stated). CloseBrowser with a session open, on an engine whose \<open>browser.close()\<close>
  rejects: the rejection leaves the handler at line 74, and the stored session is still there.
\<close>

theorem closeBrowser_release_failure_keeps_session:
  "state_after (run (closeBrowser close_fails) (Some example_state)) = Some example_state
   \<and> state_after (run (closeBrowser close_fails) (Some example_state)) \<noteq> None"
  by (simp add: closeBrowser_def browser_close_def async_defs run_defs close_fails_def
        example_engine_def)

text \<open>
  C3 (amended). For every CloseBrowser call made while a session is open, the stored session
  is cleared after the handler has run when the engine's release of the browser succeeds;
  when the release fails, the stored session is left as it was.
\<close>

theorem closeBrowser_clears_session_when_released:
  "state_after (run (closeBrowser eng) (Some bs)) =
     (if e_close eng (browser bs) = Inr () then None else Some bs)"
  by (cases "e_close eng (browser bs)")
     (simp_all add: closeBrowser_def browser_close_def async_defs run_defs)

text \<open>C3 (amended) on the example engine, whose browser closes.\<close>

theorem closeBrowser_clears_session_when_released_witness:
  "e_close example_engine (browser example_state) = Inr ()
   \<and> state_after (run (closeBrowser example_engine) (Some example_state)) = None"
  using closeBrowser_clears_session_when_released [of example_engine example_state]
  by (simp add: example_engine_def)

subsection \<open>Selecting options\<close>

text \<open>
  C5. SelectOption with a session open. The first event is always the engine's
  \<open>selectOption\<close> call. The callback receives a NOT_FOUND error if and only if that call
  resolves to the empty list; the error names the matchers and comes right after the engine
  call. When the call resolves to a non-empty list, the only response is the success
  acknowledgement that lists the selected values.
\<close>

theorem selectOption_not_found_after_engine_call:
  "take 1 (events (run (selectOption eng selector matcher) (Some bs))) =
     [Engine (PageSelectOption (page bs) selector matcher)]
   \<and> ((\<exists>details. (Some (PwserverError details NOT_FOUND), None)
          \<in> set (callbacks (events (run (selectOption eng selector matcher) (Some bs)))))
        = (e_selectOption eng (page bs) selector matcher = Inr []))
   \<and> (e_selectOption eng (page bs) selector matcher = Inr [] \<longrightarrow>
        take 2 (events (run (selectOption eng selector matcher) (Some bs))) =
          [Engine (PageSelectOption (page bs) selector matcher),
           Callback (Some (PwserverError (''No options matched '' @ array_toString matcher) NOT_FOUND)) None])
   \<and> (\<forall>result. e_selectOption eng (page bs) selector matcher = Inr result \<and> result \<noteq> [] \<longrightarrow>
        events (run (selectOption eng selector matcher) (Some bs)) =
          [Engine (PageSelectOption (page bs) selector matcher),
           Callback None (Some (Response_Empty
             (''Selected options '' @ array_toString result @ '' in element '' @ selector)))])"
proof (cases "e_selectOption eng (page bs) selector matcher")
  case (Inl e)
  then show ?thesis
    by (simp add: selectOption_def page_selectOption_def async_defs run_defs)
next
  case (Inr result)
  then show ?thesis
    by (cases result)
       (simp_all add: selectOption_def page_selectOption_def async_defs run_defs)
qed

text \<open>
  C5 on the example engine: matchers a and b select both options; the matcher
  nonexistent-value selects none.
\<close>

theorem selectOption_not_found_after_engine_call_witness:
  "e_selectOption example_engine (page example_state) ''#s'' [''a'', ''b''] = Inr [''a'', ''b'']
   \<and> events (run (selectOption example_engine ''#s'' [''a'', ''b'']) (Some example_state)) =
       [Engine (PageSelectOption (Page 0) ''#s'' [''a'', ''b'']),
        Callback None (Some (Response_Empty ''Selected options a,b in element #s''))]
   \<and> e_selectOption example_engine (page example_state) ''#s'' [''nonexistent-value''] = Inr []
   \<and> take 2 (events (run (selectOption example_engine ''#s'' [''nonexistent-value'']) (Some example_state))) =
       [Engine (PageSelectOption (Page 0) ''#s'' [''nonexistent-value'']),
        Callback (Some (PwserverError ''No options matched nonexistent-value'' NOT_FOUND)) None]"
proof -
  have a: "e_selectOption example_engine (page example_state) ''#s'' [''a'', ''b''] = Inr [''a'', ''b'']"
    by (simp add: example_engine_def)
  have n: "e_selectOption example_engine (page example_state) ''#s'' [''nonexistent-value''] = Inr []"
    by (simp add: example_engine_def)
  have p: "page example_state = Page 0" by (simp add: example_state_def)
  from selectOption_not_found_after_engine_call
         [of example_engine "''#s''" "[''a'', ''b'']" example_state]
       selectOption_not_found_after_engine_call
         [of example_engine "''#s''" "[''nonexistent-value'']" example_state]
       a n p
  show ?thesis by simp
qed

text \<open>
  C9. SelectOption with a session open, when the engine's call resolves to the empty list:
  the callback is invoked twice, first with the NOT_FOUND error and then with a success
  acknowledgement.
\<close>

theorem selectOption_empty_result_two_callbacks:
  assumes "e_selectOption eng (page bs) selector matcher = Inr []"
  shows "callbacks (events (run (selectOption eng selector matcher) (Some bs))) =
           [(Some (PwserverError (''No options matched '' @ array_toString matcher) NOT_FOUND), None),
            (None, Some (emptyWithLog
               (''Selected options '' @ array_toString [] @ '' in element '' @ selector)))]"
  using assms by (simp add: selectOption_def page_selectOption_def async_defs run_defs)

text \<open>C9 on the example engine with the matcher nonexistent-value.\<close>

theorem selectOption_empty_result_two_callbacks_witness:
  "e_selectOption example_engine (page example_state) ''#s'' [''nonexistent-value''] = Inr []
   \<and> callbacks (events (run (selectOption example_engine ''#s'' [''nonexistent-value'']) (Some example_state))) =
       [(Some (PwserverError ''No options matched nonexistent-value'' NOT_FOUND), None),
        (None, Some (Response_Empty ''Selected options  in element #s''))]"
proof -
  have n: "e_selectOption example_engine (page example_state) ''#s'' [''nonexistent-value''] = Inr []"
    by (simp add: example_engine_def)
  from selectOption_empty_result_two_callbacks [OF n] n
  show ?thesis by (simp add: emptyWithLog_def)
qed

subsection \<open>Reading properties and options\<close>

text \<open>
  C7. GetDomProperty and GetBoolProperty answer with a FAILED_PRECONDITION error in both of
  their failure cases, with different messages: with no session the message says that no
  browser is open; with a session and a selector that matches no element the message is
  \<open>Couldn't find element: \<close> followed by the selector.
\<close>

theorem property_handlers_failure_messages:
  "callbacks (events (run (getDomProperty eng selector property) None)) =
     [(Some (PwserverError ''Tried to get DOM property, no open browser'' FAILED_PRECONDITION), None)]
   \<and> callbacks (events (run (getBoolProperty eng selector property) None)) =
     [(Some (PwserverError ''Tried to get DOM property, no open browser'' FAILED_PRECONDITION), None)]
   \<and> (e_query eng (page bs) selector = Inr None \<longrightarrow>
        callbacks (events (run (getDomProperty eng selector property) (Some bs))) =
          [(Some (PwserverError (''Couldn't find element: '' @ selector) FAILED_PRECONDITION), None)]
        \<and> callbacks (events (run (getBoolProperty eng selector property) (Some bs))) =
          [(Some (PwserverError (''Couldn't find element: '' @ selector) FAILED_PRECONDITION), None)])
   \<and> ''Tried to get DOM property, no open browser'' \<noteq> ''Couldn't find element: '' @ selector"
  by (simp add: getDomProperty_def getBoolProperty_def page_query_def async_defs run_defs)

text \<open>C7 on the example engine, where no selector finds an element.\<close>

theorem property_handlers_failure_messages_witness:
  "e_query example_engine (page example_state) ''#agree'' = Inr None
   \<and> callbacks (events (run (getDomProperty example_engine ''#agree'' ''checked'') (Some example_state))) =
       [(Some (PwserverError ''Couldn't find element: #agree'' FAILED_PRECONDITION), None)]
   \<and> callbacks (events (run (getBoolProperty example_engine ''#agree'' ''checked'') (Some example_state))) =
       [(Some (PwserverError ''Couldn't find element: #agree'' FAILED_PRECONDITION), None)]
   \<and> callbacks (events (run (getBoolProperty example_engine ''#agree'' ''checked'') None)) =
       [(Some (PwserverError ''Tried to get DOM property, no open browser'' FAILED_PRECONDITION), None)]"
proof -
  have q: "e_query example_engine (page example_state) ''#agree'' = Inr None"
    by (simp add: example_engine_def)
  from property_handlers_failure_messages
         [of example_engine "''#agree''" "''checked''" example_state] q
  show ?thesis by simp
qed

text \<open>The loop of \<open>getSelectContent\<close> appends one entry per row, in the order of the rows.\<close>

lemma forEach_addEntry_map:
  "forEach_addEntry content entries =
     entries @ map (\<lambda>(l, v, s). \<lparr>entry_label = l, entry_value = v, entry_selected = s\<rparr>) content"
  by (induction content entries rule: forEach_addEntry.induct) simp_all

text \<open>
  C8. GetSelectContent with a session open: when the engine's enumeration of the options
  resolves to a list of triples (label, value, selected), the response has exactly one entry
  per triple, in the same order, and the label, the value and the selected flag of each entry
  are those of its triple.
\<close>

theorem getSelectContent_entries:
  assumes "outcome (run (page_evalAll eng (page bs) (selector @ '' option'')) (Some bs)) = Inr content"
  shows "callbacks (events (run (getSelectContent eng selector) (Some bs))) =
           [(None, Some (Response_Select
              (map (\<lambda>(l, v, s). \<lparr>entry_label = l, entry_value = v, entry_selected = s\<rparr>) content)))]"
proof -
  from assms obtain elements where
    "e_queryAll eng (page bs) (selector @ '' option'') = Inr elements"
    and "content = map option_row elements"
    by (cases "e_queryAll eng (page bs) (selector @ '' option'')")
       (auto simp add: page_evalAll_def async_defs run_defs)
  then show ?thesis
    by (simp add: getSelectContent_def page_evalAll_def forEach_addEntry_map async_defs run_defs)
qed

text \<open>C8 on the example engine: the options A (selected) and B, in this order.\<close>

theorem getSelectContent_entries_witness:
  "outcome (run (page_evalAll example_engine (page example_state) (''#s'' @ '' option''))
      (Some example_state)) = Inr [(''A'', ''a'', True), (''B'', ''b'', False)]
   \<and> callbacks (events (run (getSelectContent example_engine ''#s'') (Some example_state))) =
       [(None, Some (Response_Select
          [\<lparr>entry_label = ''A'', entry_value = ''a'', entry_selected = True\<rparr>,
           \<lparr>entry_label = ''B'', entry_value = ''b'', entry_selected = False\<rparr>]))]"
proof -
  have c: "outcome (run (page_evalAll example_engine (page example_state) (''#s'' @ '' option''))
             (Some example_state)) = Inr [(''A'', ''a'', True), (''B'', ''b'', False)]"
    by (simp add: page_evalAll_def option_row_def ne_empty_string_def async_defs run_defs
          example_engine_def)
  from getSelectContent_entries [OF c] c
  show ?thesis by simp
qed

end
